theory Spec2Isabelle
  imports Complex_Main
begin

section \<open>The filter's data\<close>

text \<open>
  The program is a direct-form-I recursive filter of fixed order working on four
  global arrays of \<open>FILTER_ORDER + 1\<close> cells each. The arrays are lists here, newest
  sample at index 0. The functions \<open>setup\<close> and \<open>loop\<close>, which produce the test
  signal and print, are outside the model. The target's \<open>float\<close> is kept abstract:
  the functions below are defined for any carrier with \<open>0\<close>, \<open>+\<close>, \<open>-\<close> and
  \<open>*\<close>, and no law of arithmetic is assumed unless a theorem names the class it
  needs. Theorems stated for a ring describe the filter in exact arithmetic; rounding is
  not part of this model.
\<close>

definition FILTER_ORDER :: nat where
  "FILTER_ORDER = 2"

record 'a filter_state =
  B_COEFFS :: "'a list"
  A_COEFFS :: "'a list"
  x_hist :: "'a list"
  y_hist :: "'a list"
  t :: 'a

text \<open>
  The C arrays have their size fixed by their declarations, so every index between 0 and
  \<open>FILTER_ORDER\<close> is in range in the program. A list can have any length; the states
  that correspond to a memory of the program are the well-formed ones.
\<close>

definition wf_state :: "('a, 'z) filter_state_scheme \<Rightarrow> bool" where
  "wf_state s \<longleftrightarrow>
     length (B_COEFFS s) = FILTER_ORDER + 1 \<and> length (A_COEFFS s) = FILTER_ORDER + 1 \<and>
     length (x_hist s) = FILTER_ORDER + 1 \<and> length (y_hist s) = FILTER_ORDER + 1"

text \<open>The initialisers of the globals, as the source file gives them.\<close>

definition initial_state :: "real filter_state" where
  "initial_state =
     \<lparr>B_COEFFS = [0.000000, 0.020198, - 0.000000],
      A_COEFFS = [1.000000, - 1.788622, 0.808858],
      x_hist = replicate (FILTER_ORDER + 1) 0,
      y_hist = replicate (FILTER_ORDER + 1) 0,
      t = 0.0\<rparr>"

section \<open>process_filter\<close>

text \<open>
  The first loop, \<open>for (i = FILTER_ORDER; i > 0; i--)\<close>: the argument is the loop
  counter, and the body copies cell \<open>i - 1\<close> to cell \<open>i\<close> in both histories.
\<close>

fun shift_loop ::
  "nat \<Rightarrow> ('a, 'z) filter_state_scheme \<Rightarrow> ('a, 'z) filter_state_scheme" where
  "shift_loop 0 s = s"
| "shift_loop (Suc k) s =
     shift_loop k
       (s\<lparr>x_hist := (x_hist s)[Suc k := x_hist s ! k],
          y_hist := (y_hist s)[Suc k := y_hist s ! k]\<rparr>)"

text \<open>
  The second loop, \<open>for (i = 0; i <= FILTER_ORDER; i++) y += B_COEFFS[i] * x_hist[i]\<close>,
  with the counter and the accumulator as arguments.
\<close>

function feedforward_loop ::
  "nat \<Rightarrow> 'a::{zero,plus,minus,times} \<Rightarrow> ('a, 'z) filter_state_scheme \<Rightarrow> 'a" where
  "feedforward_loop i y s =
     (if i \<le> FILTER_ORDER
      then feedforward_loop (Suc i) (y + B_COEFFS s ! i * x_hist s ! i) s
      else y)"
  by pat_completeness auto
termination
  by (relation "measure (\<lambda>(i, y, s). Suc FILTER_ORDER - i)") auto

text \<open>
  The third loop, \<open>for (i = 1; i <= FILTER_ORDER; i++) y -= A_COEFFS[i] * y_hist[i]\<close>.
\<close>

function feedback_loop ::
  "nat \<Rightarrow> 'a::{zero,plus,minus,times} \<Rightarrow> ('a, 'z) filter_state_scheme \<Rightarrow> 'a" where
  "feedback_loop i y s =
     (if i \<le> FILTER_ORDER
      then feedback_loop (Suc i) (y - A_COEFFS s ! i * y_hist s ! i) s
      else y)"
  by pat_completeness auto
termination
  by (relation "measure (\<lambda>(i, y, s). Suc FILTER_ORDER - i)") auto

text \<open>
  The function itself: shift, store the input, the two sums, store the output. It
  returns the output and the memory it leaves.
\<close>

definition process_filter ::
  "'a::{zero,plus,minus,times} \<Rightarrow> ('a, 'z) filter_state_scheme
     \<Rightarrow> 'a \<times> ('a, 'z) filter_state_scheme" where
  "process_filter x s =
     (let s1 = shift_loop FILTER_ORDER s;
          s2 = s1\<lparr>x_hist := (x_hist s1)[0 := x]\<rparr>;
          y0 = 0;
          y1 = feedforward_loop 0 y0 s2;
          y2 = feedback_loop 1 y1 s2;
          s3 = s2\<lparr>y_hist := (y_hist s2)[0 := y2]\<rparr>
      in (y2, s3))"

text \<open>
  A caller that feeds a sequence of samples one after the other, each call starting from
  the memory the call before left, and collects the outputs.
\<close>

fun process_all ::
  "'a::{zero,plus,minus,times} list \<Rightarrow> ('a, 'z) filter_state_scheme
     \<Rightarrow> 'a list \<times> ('a, 'z) filter_state_scheme" where
  "process_all [] s = ([], s)"
| "process_all (x # xs) s =
     (let (y, s') = process_filter x s;
          (ys, s'') = process_all xs s'
      in (y # ys, s''))"

text \<open>
  What the first loop does to one array. It is used to describe \<open>shift_loop\<close>, which
  treats both histories alike.
\<close>

fun shift_cells :: "nat \<Rightarrow> 'a list \<Rightarrow> 'a list" where
  "shift_cells 0 xs = xs"
| "shift_cells (Suc k) xs = shift_cells k (xs[Suc k := xs ! k])"

text \<open>
  The memory at the moment the two sums are computed: the histories shifted and the new
  input stored, the output not yet written.
\<close>

definition shift_and_store ::
  "'a \<Rightarrow> ('a, 'z) filter_state_scheme \<Rightarrow> ('a, 'z) filter_state_scheme" where
  "shift_and_store x s =
     (let s1 = shift_loop FILTER_ORDER s in s1\<lparr>x_hist := (x_hist s1)[0 := x]\<rparr>)"


text \<open>A small memory with whole-number contents, for worked instances.\<close>

definition sample_memory :: "real \<Rightarrow> real filter_state" where
  "sample_memory tt =
     \<lparr>B_COEFFS = [1, 2, 3], A_COEFFS = [1, 10, 100],
      x_hist = [7, 8, 9], y_hist = [1, 2, 3], t = tt\<rparr>"

section \<open>The loops in closed form\<close>

declare feedforward_loop.simps [simp del]
declare feedback_loop.simps [simp del]

lemma shift_loop_cells:
  "shift_loop k s =
     s\<lparr>x_hist := shift_cells k (x_hist s), y_hist := shift_cells k (y_hist s)\<rparr>"
  by (induction k arbitrary: s) simp_all

lemma length_shift_cells: "length (shift_cells k xs) = length xs"
  by (induction k arbitrary: xs) simp_all

lemma shift_cells_newest: "shift_cells k xs ! 0 = xs ! 0"
  by (induction k arbitrary: xs) simp_all

lemma shift_cells_closed:
  "k < length xs \<Longrightarrow> shift_cells k xs = xs ! 0 # take k xs @ drop (Suc k) xs"
proof (induction k arbitrary: xs)
  case 0
  then show ?case by (cases xs) simp_all
next
  case (Suc k)
  let ?ys = "xs[Suc k := xs ! k]"
  have "shift_cells (Suc k) xs = ?ys ! 0 # take k ?ys @ drop (Suc k) ?ys"
    using Suc by simp
  also have "?ys ! 0 = xs ! 0" by simp
  also have "take k ?ys = take k xs" by simp
  also have "drop (Suc k) ?ys = xs ! k # drop (Suc (Suc k)) xs"
    using Suc.prems
    by (simp add: drop_update_cancel Cons_nth_drop_Suc [symmetric] upd_conv_take_nth_drop)
  also have "take k xs @ xs ! k # drop (Suc (Suc k)) xs =
             take (Suc k) xs @ drop (Suc (Suc k)) xs"
    using Suc.prems by (simp add: take_Suc_conv_app_nth)
  finally show ?case .
qed

lemma shift_cells_full:
  "length xs = Suc k \<Longrightarrow> shift_cells k xs = xs ! 0 # butlast xs"
  by (simp add: shift_cells_closed butlast_conv_take)

text \<open>The sums read the coefficients and the histories, and nothing else.\<close>

lemma feedforward_loop_cong:
  "B_COEFFS s = B_COEFFS s' \<Longrightarrow> x_hist s = x_hist s' \<Longrightarrow>
   feedforward_loop i y s = feedforward_loop i y s'"
proof (induction i y s rule: feedforward_loop.induct)
  case (1 i y s)
  then show ?case
    by (simp add: feedforward_loop.simps [of i])
qed

lemma feedback_loop_cong:
  "(\<And>j. i \<le> j \<Longrightarrow> A_COEFFS s ! j = A_COEFFS s' ! j) \<Longrightarrow>
   (\<And>j. i \<le> j \<Longrightarrow> y_hist s ! j = y_hist s' ! j) \<Longrightarrow>
   feedback_loop i y s = feedback_loop i y s'"
proof (induction i y s rule: feedback_loop.induct)
  case (1 i y s)
  show ?case
  proof (cases "i \<le> FILTER_ORDER")
    case True
    have "feedback_loop (Suc i) (y - A_COEFFS s ! i * y_hist s ! i) s =
          feedback_loop (Suc i) (y - A_COEFFS s ! i * y_hist s ! i) s'"
      using True "1.prems" by (intro "1.IH") simp_all
    then show ?thesis
      using True "1.prems" by (simp add: feedback_loop.simps [of i])
  next
    case False
    then show ?thesis by (simp add: feedback_loop.simps [of i])
  qed
qed

text \<open>In exact arithmetic the accumulating loops are the sums they spell out.\<close>

lemma feedforward_loop_sum:
  fixes s :: "('a::ring, 'z) filter_state_scheme"
  shows "feedforward_loop i y s =
         y + (\<Sum>j = i..FILTER_ORDER. B_COEFFS s ! j * x_hist s ! j)"
proof (induction i y s rule: feedforward_loop.induct)
  case (1 i y s)
  show ?case
  proof (cases "i \<le> FILTER_ORDER")
    case True
    then show ?thesis
      using "1.IH"
      by (simp add: feedforward_loop.simps [of i] sum.atLeast_Suc_atMost add.assoc)
  next
    case False
    then show ?thesis by (simp add: feedforward_loop.simps [of i])
  qed
qed

lemma feedback_loop_sum:
  fixes s :: "('a::ring, 'z) filter_state_scheme"
  shows "feedback_loop i y s =
         y - (\<Sum>j = i..FILTER_ORDER. A_COEFFS s ! j * y_hist s ! j)"
proof (induction i y s rule: feedback_loop.induct)
  case (1 i y s)
  show ?case
  proof (cases "i \<le> FILTER_ORDER")
    case True
    then show ?thesis
      using "1.IH"
      by (simp add: feedback_loop.simps [of i] sum.atLeast_Suc_atMost algebra_simps)
  next
    case False
    then show ?thesis by (simp add: feedback_loop.simps [of i])
  qed
qed

text \<open>One call, in its phases.\<close>

lemma shift_and_store_fields:
  "x_hist (shift_and_store x s) = (shift_cells FILTER_ORDER (x_hist s))[0 := x]"
  "y_hist (shift_and_store x s) = shift_cells FILTER_ORDER (y_hist s)"
  "B_COEFFS (shift_and_store x s) = B_COEFFS s"
  "A_COEFFS (shift_and_store x s) = A_COEFFS s"
  "t (shift_and_store x s) = t s"
  "filter_state.more (shift_and_store x s) = filter_state.more s"
  by (simp_all add: shift_and_store_def shift_loop_cells Let_def)

lemma process_filter_phases:
  "process_filter x s =
     (feedback_loop 1 (feedforward_loop 0 0 (shift_and_store x s)) (shift_and_store x s),
      (shift_and_store x s)\<lparr>y_hist := (y_hist (shift_and_store x s))
        [0 := feedback_loop 1 (feedforward_loop 0 0 (shift_and_store x s))
                (shift_and_store x s)]\<rparr>)"
  by (simp add: process_filter_def shift_and_store_def Let_def)

lemma process_filter_A0:
  "process_filter x (s\<lparr>A_COEFFS := (A_COEFFS s)[0 := v]\<rparr>) =
     (fst (process_filter x s),
      (snd (process_filter x s))\<lparr>A_COEFFS := (A_COEFFS s)[0 := v]\<rparr>)"
proof -
  let ?r = "s\<lparr>A_COEFFS := (A_COEFFS s)[0 := v]\<rparr>"
  have ff: "feedforward_loop 0 0 (shift_and_store x ?r) =
            feedforward_loop 0 0 (shift_and_store x s)"
    by (rule feedforward_loop_cong) (simp_all add: shift_and_store_fields)
  have fb: "feedback_loop 1 y (shift_and_store x ?r) =
            feedback_loop 1 y (shift_and_store x s)" for y
    by (rule feedback_loop_cong) (simp_all add: shift_and_store_fields)
  show ?thesis
    unfolding process_filter_phases ff fb
    by (simp add: shift_and_store_def shift_loop_cells Let_def)
qed

lemma process_filter_keeps:
  "B_COEFFS (snd (process_filter x s)) = B_COEFFS s"
  "A_COEFFS (snd (process_filter x s)) = A_COEFFS s"
  "length (x_hist (snd (process_filter x s))) = length (x_hist s)"
  "length (y_hist (snd (process_filter x s))) = length (y_hist s)"
  by (simp_all add: process_filter_phases shift_and_store_fields length_shift_cells)

lemma process_all_A0:
  "process_all xs (s\<lparr>A_COEFFS := (A_COEFFS s)[0 := v]\<rparr>) =
     (fst (process_all xs s), (snd (process_all xs s))\<lparr>A_COEFFS := (A_COEFFS s)[0 := v]\<rparr>)"
proof (induction xs arbitrary: s)
  case Nil
  show ?case by simp
next
  case (Cons x xs)
  have "process_all xs ((snd (process_filter x s))\<lparr>A_COEFFS := (A_COEFFS s)[0 := v]\<rparr>) =
        (fst (process_all xs (snd (process_filter x s))),
         (snd (process_all xs (snd (process_filter x s))))
           \<lparr>A_COEFFS := (A_COEFFS s)[0 := v]\<rparr>)"
    using Cons.IH [of "snd (process_filter x s)"] by (simp add: process_filter_keeps)
  then show ?case
    by (simp add: process_filter_A0 split_beta)
qed

text \<open>
  One call written out for arrays of three cells: the terms are added to 0 and then
  subtracted one by one, in index order. No law of arithmetic is used.
\<close>

lemma process_filter_cells:
  "process_filter x
     \<lparr>B_COEFFS = [b0, b1, b2], A_COEFFS = [a0, a1, a2],
      x_hist = [x0, x1, x2], y_hist = [y0, y1, y2], t = tt\<rparr> =
   (0 + b0 * x + b1 * x0 + b2 * x1 - a1 * y0 - a2 * y1,
    \<lparr>B_COEFFS = [b0, b1, b2], A_COEFFS = [a0, a1, a2],
     x_hist = [x, x0, x1],
     y_hist = [0 + b0 * x + b1 * x0 + b2 * x1 - a1 * y0 - a2 * y1, y0, y1], t = tt\<rparr>)"
  by (simp add: process_filter_def FILTER_ORDER_def eval_nat_numeral
      feedforward_loop.simps feedback_loop.simps Let_def)

lemma initial_state_cells:
  "initial_state =
     \<lparr>B_COEFFS = [0, 0.020198, 0], A_COEFFS = [1, - 1.788622, 0.808858],
      x_hist = [0, 0, 0], y_hist = [0, 0, 0], t = 0\<rparr>"
  by (simp add: initial_state_def FILTER_ORDER_def eval_nat_numeral)

lemma sample_call:
  "process_filter 5 (sample_memory tt) =
     (- 167, (sample_memory tt)\<lparr>x_hist := [5, 7, 8], y_hist := [- 167, 1, 2]\<rparr>)"
  by (simp add: sample_memory_def process_filter_cells)

lemma wf_sample_memory: "wf_state (sample_memory tt)"
  by (simp add: sample_memory_def wf_state_def FILTER_ORDER_def)

section \<open>What one call reads and writes\<close>

text \<open>
  C9. For every input and every state, a call to \<open>process_filter\<close> changes the two
  histories only: the coefficient arrays, the time variable and any other part of the
  memory (the record's extension) are after the call what they were before it.
\<close>

theorem process_filter_frame:
  "B_COEFFS (snd (process_filter x s)) = B_COEFFS s \<and>
   A_COEFFS (snd (process_filter x s)) = A_COEFFS s \<and>
   t (snd (process_filter x s)) = t s \<and>
   filter_state.more (snd (process_filter x s)) = filter_state.more s \<and>
   snd (process_filter x s) =
     s\<lparr>x_hist := x_hist (snd (process_filter x s)),
        y_hist := y_hist (snd (process_filter x s))\<rparr>"
  by (simp add: process_filter_def shift_loop_cells Let_def)

text \<open>
  C10. The leading feedback coefficient is never read: whatever value \<open>v\<close> is put in
  \<open>A_COEFFS[0]\<close>, for every input and every history the call returns the same output
  and leaves the same histories. No law of arithmetic is used.
\<close>

theorem leading_feedback_coefficient_unread:
  "fst (process_filter x (s\<lparr>A_COEFFS := (A_COEFFS s)[0 := v]\<rparr>)) =
     fst (process_filter x s) \<and>
   x_hist (snd (process_filter x (s\<lparr>A_COEFFS := (A_COEFFS s)[0 := v]\<rparr>))) =
     x_hist (snd (process_filter x s)) \<and>
   y_hist (snd (process_filter x (s\<lparr>A_COEFFS := (A_COEFFS s)[0 := v]\<rparr>))) =
     y_hist (snd (process_filter x s))"
  by (simp add: process_filter_A0)

text \<open>
  C6. The output of a call does not depend on the output cell of that call. When the
  feedback sum runs, \<open>y_hist[0]\<close> still holds what it held when the call began; the
  sum starts at index 1, so overwriting that cell with any value \<open>v\<close> before the sum
  leaves the sum, and the output of the call, as they are. On a well-formed memory the
  call ends by storing its output in that cell, so that during the sums of the next call
  the cell holds the output of the previous one.
\<close>

theorem self_exclusion:
  assumes "wf_state s"
  shows "(let s1 = shift_loop FILTER_ORDER s;
              s2 = s1\<lparr>x_hist := (x_hist s1)[0 := x]\<rparr>
          in y_hist s2 ! 0 = y_hist s ! 0 \<and>
             feedback_loop 1 y (s2\<lparr>y_hist := (y_hist s2)[0 := v]\<rparr>) = feedback_loop 1 y s2 \<and>
             fst (process_filter x s) =
               feedback_loop 1 (feedforward_loop 0 0 s2)
                 (s2\<lparr>y_hist := (y_hist s2)[0 := v]\<rparr>)) \<and>
         y_hist (snd (process_filter x s)) ! 0 = fst (process_filter x s) \<and>
         y_hist (shift_loop FILTER_ORDER (snd (process_filter x s))) ! 0 =
           fst (process_filter x s)"
proof -
  define s2 where "s2 = shift_and_store x s"
  have a: "y_hist s2 ! 0 = y_hist s ! 0"
    by (simp add: s2_def shift_and_store_fields shift_cells_newest)
  have b: "feedback_loop 1 y' (s2\<lparr>y_hist := (y_hist s2)[0 := v]\<rparr>) = feedback_loop 1 y' s2"
    for y'
    by (rule feedback_loop_cong) simp_all
  have c: "fst (process_filter x s) = feedback_loop 1 (feedforward_loop 0 0 s2) s2"
    by (simp add: process_filter_phases s2_def)
  have "length (y_hist s) = Suc FILTER_ORDER"
    using assms by (simp add: wf_state_def)
  then have d: "y_hist (snd (process_filter x s)) ! 0 = fst (process_filter x s)"
    by (simp add: process_filter_phases shift_and_store_fields length_shift_cells)
  have e: "y_hist (shift_loop FILTER_ORDER (snd (process_filter x s))) ! 0 =
           fst (process_filter x s)"
    using d by (simp add: shift_loop_cells shift_cells_newest)
  have "shift_and_store x s =
        (let s1 = shift_loop FILTER_ORDER s in s1\<lparr>x_hist := (x_hist s1)[0 := x]\<rparr>)"
    by (rule shift_and_store_def)
  then show ?thesis
    using a b c d e unfolding Let_def s2_def by simp
qed

theorem self_exclusion_witness:
  "wf_state (sample_memory 0) \<and>
   fst (process_filter 5 (sample_memory 0)) = - 167 \<and>
   feedback_loop 1
     (feedforward_loop 0 0 ((sample_memory 0)\<lparr>x_hist := [5, 7, 8], y_hist := [1, 1, 2]\<rparr>))
     ((sample_memory 0)\<lparr>x_hist := [5, 7, 8], y_hist := [1000, 1, 2]\<rparr>) = - 167 \<and>
   y_hist (snd (process_filter 5 (sample_memory 0))) ! 0 = - 167"
proof -
  let ?s2 = "(sample_memory 0)\<lparr>x_hist := [5, 7, 8], y_hist := [1, 1, 2]\<rparr>"
  have s2: "(shift_loop FILTER_ORDER (sample_memory 0))
              \<lparr>x_hist := (x_hist (shift_loop FILTER_ORDER (sample_memory 0)))[0 := 5]\<rparr> = ?s2"
    by (simp add: sample_memory_def FILTER_ORDER_def eval_nat_numeral)
  have r: "?s2\<lparr>y_hist := (y_hist ?s2)[0 := 1000]\<rparr> =
           (sample_memory 0)\<lparr>x_hist := [5, 7, 8], y_hist := [1000, 1, 2]\<rparr>"
    by simp
  note th = self_exclusion [OF wf_sample_memory [of 0], of 5 0 1000, unfolded Let_def s2 r]
  from th have "fst (process_filter 5 (sample_memory 0)) =
      feedback_loop 1 (feedforward_loop 0 0 ?s2)
        ((sample_memory 0)\<lparr>x_hist := [5, 7, 8], y_hist := [1000, 1, 2]\<rparr>)"
    by (elim conjE)
  then show ?thesis
    by (simp add: wf_sample_memory sample_call)
qed

text \<open>
  C8. \<open>process_filter\<close> is deterministic: two runs on the same input from memories
  with the same histories (and the same coefficient arrays, which no code of the program
  writes) return the same output and leave the same histories, whatever else the two
  memories hold. No law of arithmetic is used.
\<close>

theorem process_filter_deterministic:
  assumes "x_hist s1 = x_hist s2" and "y_hist s1 = y_hist s2"
    and "B_COEFFS s1 = B_COEFFS s2" and "A_COEFFS s1 = A_COEFFS s2"
  shows "fst (process_filter x s1) = fst (process_filter x s2) \<and>
         x_hist (snd (process_filter x s1)) = x_hist (snd (process_filter x s2)) \<and>
         y_hist (snd (process_filter x s1)) = y_hist (snd (process_filter x s2))"
proof -
  have ff: "feedforward_loop 0 0 (shift_and_store x s1) = feedforward_loop 0 0 (shift_and_store x s2)"
    using assms by (intro feedforward_loop_cong) (simp_all add: shift_and_store_fields)
  have fb: "feedback_loop 1 y (shift_and_store x s1) = feedback_loop 1 y (shift_and_store x s2)" for y
    using assms by (intro feedback_loop_cong) (simp_all add: shift_and_store_fields)
  show ?thesis
    unfolding process_filter_phases ff fb using assms by (simp add: shift_and_store_fields)
qed

theorem process_filter_deterministic_witness:
  "x_hist (sample_memory 0) = x_hist (sample_memory 4) \<and>
   y_hist (sample_memory 0) = y_hist (sample_memory 4) \<and>
   B_COEFFS (sample_memory 0) = B_COEFFS (sample_memory 4) \<and>
   A_COEFFS (sample_memory 0) = A_COEFFS (sample_memory 4) \<and>
   sample_memory 0 \<noteq> sample_memory 4 \<and>
   fst (process_filter 5 (sample_memory 0)) = fst (process_filter 5 (sample_memory 4)) \<and>
   y_hist (snd (process_filter 5 (sample_memory 0))) =
     y_hist (snd (process_filter 5 (sample_memory 4)))"
proof -
  have h: "x_hist (sample_memory 0) = x_hist (sample_memory 4)"
    "y_hist (sample_memory 0) = y_hist (sample_memory 4)"
    "B_COEFFS (sample_memory 0) = B_COEFFS (sample_memory 4)"
    "A_COEFFS (sample_memory 0) = A_COEFFS (sample_memory 4)"
    by (simp_all add: sample_memory_def)
  have "sample_memory 0 \<noteq> sample_memory 4"
    by (simp add: sample_memory_def)
  then show ?thesis
    using h process_filter_deterministic [OF h, of 5] by simp
qed

section \<open>The history shift\<close>

text \<open>
  C2. On a well-formed memory, the first loop gives every cell \<open>i\<close> from
  \<open>FILTER_ORDER\<close> down to 1 the former content of cell \<open>i - 1\<close>, in both histories,
  and keeps their length, so the oldest sample is lost. The input is stored in
  \<open>x_hist[0]\<close> before the sums: they run on \<open>x # butlast x_hist\<close> and on
  \<open>y_hist\<close> shifted, whose cell 0 still holds the previous output. The output \<open>y\<close>
  is stored in \<open>y_hist[0]\<close> after the sums, and the call leaves the histories
  \<open>x # butlast x_hist\<close> and \<open>y # butlast y_hist\<close>.
\<close>

theorem history_shift:
  assumes "wf_state s"
  shows "(let s1 = shift_loop FILTER_ORDER s;
              s2 = s1\<lparr>x_hist := (x_hist s1)[0 := x]\<rparr>;
              y = feedback_loop 1 (feedforward_loop 0 0 s2) s2
          in (\<forall>i\<in>{1..FILTER_ORDER}. x_hist s1 ! i = x_hist s ! (i - 1) \<and>
                                   y_hist s1 ! i = y_hist s ! (i - 1)) \<and>
             length (x_hist s1) = FILTER_ORDER + 1 \<and> length (y_hist s1) = FILTER_ORDER + 1 \<and>
             x_hist s2 = x # butlast (x_hist s) \<and>
             y_hist s2 = y_hist s ! 0 # butlast (y_hist s) \<and>
             process_filter x s = (y, s2\<lparr>y_hist := (y_hist s2)[0 := y]\<rparr>) \<and>
             x_hist (snd (process_filter x s)) = x # butlast (x_hist s) \<and>
             y_hist (snd (process_filter x s)) = y # butlast (y_hist s))"
proof -
  define s1 where "s1 = shift_loop FILTER_ORDER s"
  define s2 where "s2 = s1\<lparr>x_hist := (x_hist s1)[0 := x]\<rparr>"
  define y where "y = feedback_loop 1 (feedforward_loop 0 0 s2) s2"
  have lx: "length (x_hist s) = Suc FILTER_ORDER" and ly: "length (y_hist s) = Suc FILTER_ORDER"
    using assms by (simp_all add: wf_state_def)
  have x1: "x_hist s1 = x_hist s ! 0 # butlast (x_hist s)"
    by (simp add: s1_def shift_loop_cells shift_cells_full [OF lx])
  have y1: "y_hist s1 = y_hist s ! 0 # butlast (y_hist s)"
    by (simp add: s1_def shift_loop_cells shift_cells_full [OF ly])
  have sh: "x_hist s1 ! i = x_hist s ! (i - 1) \<and> y_hist s1 ! i = y_hist s ! (i - 1)"
    if prem: "i \<in> {1..FILTER_ORDER}" for i
  proof -
    obtain j where i: "i = Suc j" and j: "j < FILTER_ORDER"
      using prem by (cases i) auto
    show ?thesis
      using j lx ly by (simp add: i x1 y1 nth_butlast)
  qed
  have len: "length (x_hist s1) = FILTER_ORDER + 1" "length (y_hist s1) = FILTER_ORDER + 1"
    using lx ly by (simp_all add: x1 y1)
  have x2: "x_hist s2 = x # butlast (x_hist s)" by (simp add: s2_def x1)
  have y2: "y_hist s2 = y_hist s ! 0 # butlast (y_hist s)" by (simp add: s2_def y1)
  have pf: "process_filter x s = (y, s2\<lparr>y_hist := (y_hist s2)[0 := y]\<rparr>)"
    by (simp add: process_filter_def s1_def s2_def y_def Let_def)
  have fin: "x_hist (snd (process_filter x s)) = x # butlast (x_hist s)"
    "y_hist (snd (process_filter x s)) = y # butlast (y_hist s)"
    by (simp_all add: pf x2 y2)
  show ?thesis
    unfolding Let_def s1_def [symmetric] s2_def [symmetric] y_def [symmetric]
    using sh len x2 y2 pf fin by blast
qed

theorem history_shift_witness:
  "wf_state (sample_memory 0) \<and>
   x_hist (sample_memory 0) = [7, 8, 9] \<and> y_hist (sample_memory 0) = [1, 2, 3] \<and>
   fst (process_filter 5 (sample_memory 0)) = - 167 \<and>
   x_hist (snd (process_filter 5 (sample_memory 0))) = [5, 7, 8] \<and>
   y_hist (snd (process_filter 5 (sample_memory 0))) = [- 167, 1, 2]"
  using history_shift [OF wf_sample_memory [of 0], of 5]
  by (simp add: wf_sample_memory sample_call) (simp add: sample_memory_def)

section \<open>The output\<close>



section \<open>Sequences of calls from zero histories\<close>

lemma shift_cells_zeros:
  "shift_cells k (replicate (Suc k) 0) = replicate (Suc k) 0"
proof -
  have "shift_cells k (replicate (Suc k) 0) =
        replicate (Suc k) 0 ! 0 # butlast (replicate (Suc k) 0)"
    by (rule shift_cells_full) simp
  also have "butlast (replicate (Suc k) 0) = replicate k 0"
    by (simp add: butlast_conv_take del: replicate_Suc)
  finally show ?thesis by simp
qed

lemma process_filter_zero:
  fixes s :: "('a::ring, 'z) filter_state_scheme"
  assumes x: "x_hist s = replicate (FILTER_ORDER + 1) 0"
    and y: "y_hist s = replicate (FILTER_ORDER + 1) 0"
  shows "process_filter 0 s = (0, s)"
proof -
  let ?s2 = "shift_and_store 0 s"
  have sx: "shift_cells FILTER_ORDER (x_hist s) = x_hist s"
    and sy: "shift_cells FILTER_ORDER (y_hist s) = y_hist s"
    using shift_cells_zeros [of FILTER_ORDER, where ?'a = 'a] by (simp_all add: x y)
  have x2: "x_hist ?s2 = x_hist s"
    unfolding shift_and_store_fields sx by (simp add: x)
  have y2: "y_hist ?s2 = y_hist s"
    unfolding shift_and_store_fields sy by simp
  have xz: "x_hist ?s2 ! j = 0" if "j \<le> FILTER_ORDER" for j
    using that unfolding x2 x by (simp del: replicate_Suc)
  have yz: "y_hist ?s2 ! j = 0" if "j \<le> FILTER_ORDER" for j
    using that unfolding y2 y by (simp del: replicate_Suc)
  have ff: "feedforward_loop 0 0 ?s2 = 0"
    by (simp add: feedforward_loop_sum xz)
  have fb: "feedback_loop 1 0 ?s2 = 0"
    by (simp add: feedback_loop_sum yz del: One_nat_def)
  have "(y_hist s)[0 := 0] = y_hist s"
    by (simp add: y)
  then have "?s2\<lparr>y_hist := (y_hist ?s2)[0 := 0]\<rparr> = s"
    unfolding y2 using x2 y2 by (simp add: shift_and_store_def shift_loop_cells Let_def)
  then show ?thesis
    unfolding process_filter_phases ff fb by simp
qed

text \<open>
  C4. In exact arithmetic (any ring), from a memory whose two histories are all zero,
  whatever the coefficients, \<open>n\<close> calls with input 0 return 0 each, for every \<open>n\<close>,
  and leave the memory as it was.
\<close>

theorem zero_input_zero_output:
  fixes s :: "('a::ring, 'z) filter_state_scheme"
  assumes "x_hist s = replicate (FILTER_ORDER + 1) 0"
    and "y_hist s = replicate (FILTER_ORDER + 1) 0"
  shows "process_all (replicate n 0) s = (replicate n 0, s)"
  using assms by (induction n) (simp_all add: process_filter_zero)

theorem zero_input_zero_output_witness:
  "x_hist initial_state = replicate (FILTER_ORDER + 1) 0 \<and>
   y_hist initial_state = replicate (FILTER_ORDER + 1) 0 \<and>
   process_all [0, 0, 0, 0] initial_state = ([0, 0, 0, 0], initial_state)"
  using zero_input_zero_output [of initial_state 4]
  by (simp add: initial_state_def eval_nat_numeral)












section \<open>The shipped coefficients\<close>




section \<open>Construction\<close>

text \<open>
  C7, as the code has it. The program has no construction step that could fail and no
  error value: the memory is what the initialisers of the globals make it. It is
  well-formed, its leading feedback coefficient is 1 and its histories are zero. Nothing
  reads \<open>A_COEFFS[0]\<close>: with any value \<open>v\<close> there, 0 included, every sequence of calls
  returns the outputs it returns from the shipped memory.
\<close>

theorem static_construction:
  "wf_state initial_state \<and>
   A_COEFFS initial_state ! 0 = 1 \<and>
   x_hist initial_state = replicate (FILTER_ORDER + 1) 0 \<and>
   y_hist initial_state = replicate (FILTER_ORDER + 1) 0 \<and>
   fst (process_all xs (initial_state\<lparr>A_COEFFS := (A_COEFFS initial_state)[0 := v]\<rparr>)) =
     fst (process_all xs initial_state)"
proof -
  have "wf_state initial_state"
    by (simp add: initial_state_def wf_state_def FILTER_ORDER_def)
  moreover have "A_COEFFS initial_state ! 0 = 1"
    by (simp add: initial_state_def)
  moreover have "x_hist initial_state = replicate (FILTER_ORDER + 1) 0"
    and "y_hist initial_state = replicate (FILTER_ORDER + 1) 0"
    by (simp_all add: initial_state_def)
  moreover have
    "fst (process_all xs (initial_state\<lparr>A_COEFFS := (A_COEFFS initial_state)[0 := v]\<rparr>)) =
     fst (process_all xs initial_state)"
    by (simp add: process_all_A0)
  ultimately show ?thesis by blast
qed

text \<open>
  C7, as the claim has it: a memory whose \<open>A_COEFFS[0]\<close> is zero is not rejected. It
  is well-formed and the calls on it return outputs, those of the shipped filter.
\<close>

theorem zero_leading_coefficient_counterexample:
  "A_COEFFS (initial_state\<lparr>A_COEFFS := [0, - 1.788622, 0.808858]\<rparr>) ! 0 = 0 \<and>
   wf_state (initial_state\<lparr>A_COEFFS := [0, - 1.788622, 0.808858]\<rparr>) \<and>
   fst (process_all [1, 0, 0] (initial_state\<lparr>A_COEFFS := [0, - 1.788622, 0.808858]\<rparr>)) =
     [0, 0.020198, 0.036126587156]"
  by (simp add: initial_state_cells process_filter_cells wf_state_def FILTER_ORDER_def)

end
